theory Spec2Isabelle
  imports Complex_Main
begin

section \<open>Curvature sliders: a shallow embedding of curvatureSliders.py\<close>

text \<open>
  The module defines one class, \<open>CurvatureSliders\<close>, a leaf system of a simulation
  framework. Python floats are idealised as \<^typ>\<open>real\<close>: rounding, infinities and
  not-a-number values are outside the model. Everything that can raise in the source
  is a branch of the model: results are \<open>error + 'a\<close>, with \<open>Inl\<close> the exception.
\<close>

subsection \<open>Exceptions\<close>

datatype error =
    IndexError          \<comment> \<open>tuple index out of range\<close>
  | ZeroDivisionError   \<comment> \<open>division by zero\<close>
  | ValueError          \<comment> \<open>operands could not be broadcast together\<close>
  | FrameworkError      \<comment> \<open>raised inside the host framework, whatever its Python class\<close>

definition getitem :: "'a list \<Rightarrow> nat \<Rightarrow> error + 'a" where
  "getitem xs i = (if i < length xs then Inr (xs ! i) else Inl IndexError)"

definition py_div :: "real \<Rightarrow> real \<Rightarrow> error + real" where
  "py_div a b = (if b = 0 then Inl ZeroDivisionError else Inr (a / b))"

subsection \<open>The kinematics conversion \<open>CC2AGRB\<close>\<close>

text \<open>
  The list literal built under \<open>if q != 0\<close>: its two middle entries are each
  \<open>L * sin(0.5 * q) / q\<close>, evaluated one after the other.
\<close>

definition curved_config :: "real \<Rightarrow> real \<Rightarrow> error + real list" where
  "curved_config L q =
     (case py_div (L * sin (0.5 * q)) q of
        Inl e \<Rightarrow> Inl e
      | Inr a \<Rightarrow>
          (case py_div (L * sin (0.5 * q)) q of
             Inl e \<Rightarrow> Inl e
           | Inr b \<Rightarrow> Inr [0.5 * q, a, b, 0.5 * q]))"

text \<open>
  \<open>functools.reduce(operator.iconcat, [config1, config2], [])\<close>: a left fold of list
  concatenation from the empty list.
\<close>

definition reduce_iconcat :: "'a list list \<Rightarrow> 'a list" where
  "reduce_iconcat xss = foldl (@) [] xss"

definition CC2AGRB :: "real \<Rightarrow> real list \<Rightarrow> error + real list" where
  "CC2AGRB L q =
     (case getitem q 0 of
        Inl e \<Rightarrow> Inl e
      | Inr q1 \<Rightarrow>
     (case getitem q 1 of
        Inl e \<Rightarrow> Inl e
      | Inr q2 \<Rightarrow>
     (let config1 = [0, 0.5 * L, 0.5 * L, 0];
          config2 = [0, 0.5 * L, 0.5 * L, 0]
      in
     (case (if q1 \<noteq> 0 then curved_config L q1 else Inr config1) of
        Inl e \<Rightarrow> Inl e
      | Inr config1' \<Rightarrow>
     (case (if q2 \<noteq> 0 then curved_config L q2 else Inr config2) of
        Inl e \<Rightarrow> Inl e
      | Inr config2' \<Rightarrow> Inr (reduce_iconcat [config1', config2']))))))"

text \<open>
  The segment block in the words of the specification, to be compared with what
  \<open>CC2AGRB\<close> computes.
\<close>

definition segment_block :: "real \<Rightarrow> real \<Rightarrow> real list" where
  "segment_block L q =
     (if q = 0 then [0, 0.5 * L, 0.5 * L, 0]
      else [0.5 * q, L * sin (0.5 * q) / q, L * sin (0.5 * q) / q, 0.5 * q])"

subsection \<open>The visualiser: sliders and buttons\<close>

text \<open>
  The \<open>meshcat\<close> object belongs to the host framework. The model keeps what the class
  uses of it: the sliders in the order they were added, and the click count of each
  button. Looking up a name that was never added raises in the framework, and so does
  adding a slider under a name that a slider or a button already has, or a button under
  the name of a slider. Adding a button that is already there sets its click count back
  to zero.
\<close>

record slider =
  slider_name :: string
  slider_min :: real
  slider_max :: real
  slider_step :: real
  slider_value :: real

record meshcat =
  sliders :: "slider list"
  buttons :: "(string \<times> int) list"

text \<open>
  \<open>AddSlider(name, min, max, step, value)\<close>: the slider is recorded with the arguments of
  the call, after the sliders that are there already.
\<close>

definition AddSlider ::
  "meshcat \<Rightarrow> string \<Rightarrow> real \<Rightarrow> real \<Rightarrow> real \<Rightarrow> real \<Rightarrow> error + meshcat" where
  "AddSlider m nm lo hi st v =
     (if nm \<in> fst ` set (buttons m) \<or> nm \<in> slider_name ` set (sliders m)
      then Inl FrameworkError
      else Inr (m\<lparr>sliders := sliders m @
        [\<lparr>slider_name = nm, slider_min = lo, slider_max = hi, slider_step = st,
          slider_value = v\<rparr>]\<rparr>))"

definition GetSliderValue :: "meshcat \<Rightarrow> string \<Rightarrow> error + real" where
  "GetSliderValue m nm =
     (case find (\<lambda>s. slider_name s = nm) (sliders m) of
        None \<Rightarrow> Inl FrameworkError
      | Some s \<Rightarrow> Inr (slider_value s))"

definition AddButton :: "meshcat \<Rightarrow> string \<Rightarrow> error + meshcat" where
  "AddButton m nm =
     (if nm \<in> fst ` set (buttons m)
      then Inr (m\<lparr>buttons := map (\<lambda>(k, c). if k = nm then (k, 0) else (k, c)) (buttons m)\<rparr>)
      else if nm \<in> slider_name ` set (sliders m) then Inl FrameworkError
      else Inr (m\<lparr>buttons := buttons m @ [(nm, 0)]\<rparr>))"

definition GetButtonClicks :: "meshcat \<Rightarrow> string \<Rightarrow> error + int" where
  "GetButtonClicks m nm =
     (case map_of (buttons m) nm of
        None \<Rightarrow> Inl FrameworkError
      | Some c \<Rightarrow> Inr c)"

subsection \<open>The class \<open>CurvatureSliders\<close>\<close>

record SliderDefault =
  name :: string
  default :: real

definition Q1 :: SliderDefault where
  "Q1 = \<lparr>name = ''q1'', default = 0.0\<rparr>"

definition Q2 :: SliderDefault where
  "Q2 = \<lparr>name = ''q2'', default = 0.0\<rparr>"

text \<open>
  The plant is known to the class by its generalized positions only: those of the
  default context, whose length is the plant's number of positions.
\<close>

record plant =
  default_positions :: "real list"

record CurvatureSliders =
  output_ports :: "(string \<times> nat) list"
  sys_meshcat :: meshcat
  sys_plant :: plant
  sys_L :: real

text \<open>
  The constructor, \<open>__init__(self, meshcat, plant, L=0.2)\<close>: the output port is declared
  and the fields are set, then the two sliders are added. When adding a slider raises,
  so does the constructor, and there is no object.
\<close>

definition init :: "meshcat \<Rightarrow> plant \<Rightarrow> real \<Rightarrow> error + CurvatureSliders" where
  "init m p L =
     (let output = [(''q1_q2'', 2)] in
     (case AddSlider m (name Q1) (- 2.0 * pi) (2.0 * pi) 0.1 (default Q1) of
        Inl e \<Rightarrow> Inl e
      | Inr m1 \<Rightarrow>
     (case AddSlider m1 (name Q2) (- 2.0 * pi) (2.0 * pi) 0.1 (default Q2) of
        Inl e \<Rightarrow> Inl e
      | Inr m2 \<Rightarrow>
          Inr \<lparr>output_ports = output, sys_meshcat = m2, sys_plant = p, sys_L = L\<rparr>)))"

definition init_default :: "meshcat \<Rightarrow> plant \<Rightarrow> error + CurvatureSliders" where
  "init_default m p = init m p 0.2"

text \<open>
  \<open>output.SetAtIndex(i, v)\<close> on the framework's vector: the index must be in range.
\<close>

definition SetAtIndex :: "real list \<Rightarrow> nat \<Rightarrow> real \<Rightarrow> error + real list" where
  "SetAtIndex out i v = (if i < length out then Inr (out[i := v]) else Inl FrameworkError)"

definition DoCalcOutput :: "meshcat \<Rightarrow> real list \<Rightarrow> error + real list" where
  "DoCalcOutput m out =
     (case GetSliderValue m (name Q1) of
        Inl e \<Rightarrow> Inl e
      | Inr q1 \<Rightarrow>
     (case GetSliderValue m (name Q2) of
        Inl e \<Rightarrow> Inl e
      | Inr q2 \<Rightarrow>
     (case SetAtIndex out 0 q1 of
        Inl e \<Rightarrow> Inl e
      | Inr out1 \<Rightarrow> SetAtIndex out1 1 q2)))"

text \<open>
  \<open>self.get_output_port().Eval(sliders_context)\<close>: caching is disabled for the port, so
  each evaluation runs \<open>DoCalcOutput\<close> on a vector of the declared size.
\<close>

definition Eval :: "CurvatureSliders \<Rightarrow> meshcat \<Rightarrow> error + real list" where
  "Eval sys m =
     (case output_ports sys of
        [] \<Rightarrow> Inl FrameworkError
      | (nm, n) # rest \<Rightarrow> DoCalcOutput m (replicate n 0))"

subsection \<open>The polling loop of \<open>Run\<close>\<close>

text \<open>
  \<open>new_positions - old_positions\<close> is a list minus a one-dimensional array: the
  element-wise difference, with an operand of length one stretched to the other's
  length, and an exception for any other pair of different lengths.
\<close>

definition np_sub :: "real list \<Rightarrow> real list \<Rightarrow> error + real list" where
  "np_sub xs ys =
     (if length xs = length ys then Inr (map2 (-) xs ys)
      else if length ys = 1 then Inr (map (\<lambda>x. x - hd ys) xs)
      else if length xs = 1 then Inr (map (\<lambda>y. hd xs - y) ys)
      else Inl ValueError)"

text \<open>
  \<open>plant.SetPositions(context, q)\<close>: the framework accepts a vector of exactly the
  plant's number of positions.
\<close>

definition SetPositions :: "real list \<Rightarrow> real list \<Rightarrow> error + real list" where
  "SetPositions ctx q = (if length q = length ctx then Inr q else Inl FrameworkError)"

definition kButtonName :: string where
  "kButtonName = ''Stop Curvature Sliders''"

text \<open>
  What one iteration does to the world: \<open>Publish ps\<close> is \<open>diagram.Publish\<close> of a
  context whose plant positions are \<open>ps\<close>; \<open>Sleep d\<close> is \<open>time.sleep(d)\<close>.
\<close>

datatype event = Publish "real list" | Sleep real

datatype flow = Break | Continue

text \<open>
  The surroundings of one iteration: the visualiser's state as the iteration finds it,
  and the value \<open>time.time()\<close> returns in it.
\<close>

record poll =
  poll_meshcat :: meshcat
  poll_time :: real

text \<open>
  The body of the \<open>while\<close> loop together with its condition. The result is the
  control flow taken, the plant context's positions afterwards, and the events of
  the iteration in order.
\<close>

definition Run_iteration ::
  "CurvatureSliders \<Rightarrow> real \<Rightarrow> real \<Rightarrow> poll \<Rightarrow> real list \<Rightarrow> error + (flow \<times> real list \<times> event list)" where
  "Run_iteration sys timeout t0 p ctx =
     (case GetButtonClicks (poll_meshcat p) kButtonName of
        Inl e \<Rightarrow> Inl e
      | Inr clicks \<Rightarrow>
     (if \<not> clicks < 1 then Inr (Break, ctx, [])
      else
     (let elapsed_t = poll_time p - t0 in
      if elapsed_t \<ge> timeout then Inr (Break, ctx, [])
      else
     (let old_positions = ctx in
     (case Eval sys (poll_meshcat p) of
        Inl e \<Rightarrow> Inl e
      | Inr q \<Rightarrow>
     (case CC2AGRB (sys_L sys) q of
        Inl e \<Rightarrow> Inl e
      | Inr new_positions \<Rightarrow>
     (case np_sub new_positions old_positions of
        Inl e \<Rightarrow> Inl e
      | Inr d \<Rightarrow>
     (if list_all (\<lambda>x. \<bar>x\<bar> < 0.001) d then Inr (Continue, ctx, [Sleep 0.01])
      else
     (case SetPositions ctx new_positions of
        Inl e \<Rightarrow> Inl e
      | Inr ctx' \<Rightarrow> Inr (Continue, ctx', [Publish ctx']))))))))))"

text \<open>
  The loop over the iterations the surroundings allow for: one \<open>poll\<close> each. When the
  polls run out before the loop has left, the result is \<open>Continue\<close>: the loop is still
  polling.
\<close>

fun Run_loop ::
  "CurvatureSliders \<Rightarrow> real \<Rightarrow> real \<Rightarrow> poll list \<Rightarrow> real list \<Rightarrow> event list
     \<Rightarrow> error + (flow \<times> real list \<times> event list)" where
  "Run_loop sys timeout t0 [] ctx evs = Inr (Continue, ctx, evs)"
| "Run_loop sys timeout t0 (p # ps) ctx evs =
     (case Run_iteration sys timeout t0 p ctx of
        Inl e \<Rightarrow> Inl e
      | Inr (Break, ctx', evs') \<Rightarrow> Inr (Break, ctx', evs @ evs')
      | Inr (Continue, ctx', evs') \<Rightarrow> Run_loop sys timeout t0 ps ctx' (evs @ evs'))"

text \<open>
  \<open>Run(self, diagram, timeout=1e5)\<close>: the default context, the stop button, the start
  time \<open>t0\<close>, one publish, then the loop. The result is the visualiser with the button
  added and what the loop returns; when adding the button raises, the loop is not
  entered.
\<close>

definition Run ::
  "CurvatureSliders \<Rightarrow> real \<Rightarrow> real \<Rightarrow> poll list
     \<Rightarrow> error + (meshcat \<times> flow \<times> real list \<times> event list)" where
  "Run sys timeout t0 ps =
     (let plant_context = default_positions (sys_plant sys) in
     (case AddButton (sys_meshcat sys) kButtonName of
        Inl e \<Rightarrow> Inl e
      | Inr m \<Rightarrow>
     (case Run_loop sys timeout t0 ps plant_context [Publish plant_context] of
        Inl e \<Rightarrow> Inl e
      | Inr r \<Rightarrow> Inr (m, r))))"

text \<open>
  The loop's exit condition in the words of the specification: the stop button has been
  clicked at least once, or the time elapsed since the loop started is at least the
  timeout.
\<close>

definition stop_or_timeout :: "real \<Rightarrow> real \<Rightarrow> poll \<Rightarrow> bool" where
  "stop_or_timeout timeout t0 p =
     ((case GetButtonClicks (poll_meshcat p) kButtonName of
         Inl e \<Rightarrow> False
       | Inr clicks \<Rightarrow> 1 \<le> clicks)
      \<or> timeout \<le> poll_time p - t0)"

text \<open>
  A visualiser state in which the loop's lookups succeed: the stop button and both
  sliders are there.
\<close>

definition meshcat_ready :: "meshcat \<Rightarrow> bool" where
  "meshcat_ready m =
     (kButtonName \<in> fst ` set (buttons m)
      \<and> name Q1 \<in> slider_name ` set (sliders m)
      \<and> name Q2 \<in> slider_name ` set (sliders m))"


subsection \<open>A concrete scene\<close>

text \<open>
  The system the constructor builds with the default rest length from an empty
  visualiser and a plant of eight positions, and the visualiser as a user may have left
  it: the two sliders at given values, the stop button at a given click count, the clock
  at a given reading.
\<close>

definition scene_meshcat :: "real \<Rightarrow> real \<Rightarrow> int \<Rightarrow> meshcat" where
  "scene_meshcat v1 v2 c =
     \<lparr>sliders =
        [\<lparr>slider_name = ''q1'', slider_min = - 2.0 * pi, slider_max = 2.0 * pi,
          slider_step = 0.1, slider_value = v1\<rparr>,
         \<lparr>slider_name = ''q2'', slider_min = - 2.0 * pi, slider_max = 2.0 * pi,
          slider_step = 0.1, slider_value = v2\<rparr>],
      buttons = [(kButtonName, c)]\<rparr>"

definition scene_poll :: "real \<Rightarrow> real \<Rightarrow> int \<Rightarrow> real \<Rightarrow> poll" where
  "scene_poll v1 v2 c t = \<lparr>poll_meshcat = scene_meshcat v1 v2 c, poll_time = t\<rparr>"

definition scene_plant :: plant where
  "scene_plant = \<lparr>default_positions = [0, 0, 0, 0, 0, 0, 0, 0]\<rparr>"

definition scene_system :: CurvatureSliders where
  "scene_system =
     \<lparr>output_ports = [(''q1_q2'', 2)],
      sys_meshcat =
        \<lparr>sliders =
           [\<lparr>slider_name = ''q1'', slider_min = - 2.0 * pi, slider_max = 2.0 * pi,
             slider_step = 0.1, slider_value = 0.0\<rparr>,
            \<lparr>slider_name = ''q2'', slider_min = - 2.0 * pi, slider_max = 2.0 * pi,
             slider_step = 0.1, slider_value = 0.0\<rparr>],
         buttons = []\<rparr>,
      sys_plant = scene_plant,
      sys_L = 0.2\<rparr>"

section \<open>Properties of the kinematics conversion\<close>

lemma curved_config_nonzero:
  "q \<noteq> 0 \<Longrightarrow>
   curved_config L q = Inr [0.5 * q, L * sin (0.5 * q) / q, L * sin (0.5 * q) / q, 0.5 * q]"
  by (simp add: curved_config_def py_div_def)

lemma config_branch_block:
  "(if q \<noteq> 0 then curved_config L q else Inr [0, 0.5 * L, 0.5 * L, 0]) = Inr (segment_block L q)"
  by (cases "q = 0") (simp_all add: curved_config_nonzero segment_block_def)

lemma length_segment_block: "length (segment_block L q) = 4"
  by (simp add: segment_block_def)

lemma CC2AGRB_blocks:
  "2 \<le> length q \<Longrightarrow> CC2AGRB L q = Inr (segment_block L (q ! 0) @ segment_block L (q ! 1))"
proof -
  assume len: "2 \<le> length q"
  have g0: "getitem q 0 = Inr (q ! 0)" and g1: "getitem q 1 = Inr (q ! 1)"
    using len by (auto simp: getitem_def)
  show ?thesis
    unfolding CC2AGRB_def g0 g1 Let_def sum.case config_branch_block reduce_iconcat_def
    by simp
qed

lemma CC2AGRB_short: "length q < 2 \<Longrightarrow> CC2AGRB L q = Inl IndexError"
  by (cases q) (simp_all add: CC2AGRB_def getitem_def)

lemma length_CC2AGRB:
  "CC2AGRB L q = Inr r \<Longrightarrow> length r = 8"
proof -
  assume a: "CC2AGRB L q = Inr r"
  have "2 \<le> length q"
  proof (rule ccontr)
    assume "\<not> 2 \<le> length q"
    then have "CC2AGRB L q = Inl IndexError" by (simp add: CC2AGRB_short)
    with a show False by simp
  qed
  then have "r = segment_block L (q ! 0) @ segment_block L (q ! 1)"
    using a by (simp add: CC2AGRB_blocks)
  then show ?thesis by (simp add: length_segment_block)
qed

text \<open>
  Claim C1. For every pair \<open>(q1, q2)\<close> and rest length \<open>L\<close>, \<open>CC2AGRB\<close> returns a list of
  eight elements, the concatenation of two blocks of four, where the block of a curvature
  \<open>q\<close> is \<open>[0.5*q, L*sin(0.5*q)/q, L*sin(0.5*q)/q, 0.5*q]\<close> when \<open>q\<close> is not zero and
  \<open>[0, 0.5*L, 0.5*L, 0]\<close> when it is.
\<close>

theorem CC2AGRB_two_blocks:
  "CC2AGRB L [q1, q2] = Inr (segment_block L q1 @ segment_block L q2)
   \<and> length (segment_block L q1) = 4 \<and> length (segment_block L q2) = 4
   \<and> length (segment_block L q1 @ segment_block L q2) = 8"
  by (simp add: CC2AGRB_blocks length_segment_block)

theorem CC2AGRB_two_blocks_witness:
  "CC2AGRB 0.2 [0, 1] = Inr [0, 0.1, 0.1, 0, 0.5, 0.2 * sin 0.5, 0.2 * sin 0.5, 0.5]"
  using CC2AGRB_two_blocks [of "0.2" 0 1] by (simp add: segment_block_def)

text \<open>
  Claim C4. \<open>CC2AGRB\<close> never divides by zero, whatever its input, and on every tuple of
  at least two elements it returns a result (of eight elements).
\<close>

theorem CC2AGRB_total:
  "CC2AGRB L q \<noteq> Inl ZeroDivisionError
   \<and> (2 \<le> length q \<longrightarrow> (\<exists>r. CC2AGRB L q = Inr r \<and> length r = 8))"
proof (cases "2 \<le> length q")
  case True
  then show ?thesis by (simp add: CC2AGRB_blocks length_segment_block)
next
  case False
  then show ?thesis by (simp add: CC2AGRB_short)
qed

theorem CC2AGRB_total_witness:
  "2 \<le> length [0, 0 :: real] \<and> (\<exists>r. CC2AGRB 0.2 [0, 0] = Inr r \<and> length r = 8)"
  using CC2AGRB_total [of "0.2" "[0, 0]"] by simp

text \<open>
  Claim C9. The result \<open>r\<close> of \<open>CC2AGRB\<close> on \<open>(q1, q2)\<close> has \<open>r[0] = r[3]\<close>, \<open>r[1] = r[2]\<close>,
  \<open>r[4] = r[7]\<close> and \<open>r[5] = r[6]\<close>; its first four elements stay the same when only \<open>q2\<close>
  changes, and its last four when only \<open>q1\<close> changes.
\<close>

theorem CC2AGRB_symmetric_blocks:
  assumes r: "CC2AGRB L [q1, q2] = Inr r"
    and ra: "CC2AGRB L [q1, q2'] = Inr ra"
    and rb: "CC2AGRB L [q1', q2] = Inr rb"
  shows "length r = 8 \<and> r ! 0 = r ! 3 \<and> r ! 1 = r ! 2 \<and> r ! 4 = r ! 7 \<and> r ! 5 = r ! 6
         \<and> take 4 ra = take 4 r \<and> drop 4 rb = drop 4 r"
proof -
  have r': "r = segment_block L q1 @ segment_block L q2"
    using r by (simp add: CC2AGRB_blocks)
  have ra': "ra = segment_block L q1 @ segment_block L q2'"
    using ra by (simp add: CC2AGRB_blocks)
  have rb': "rb = segment_block L q1' @ segment_block L q2"
    using rb by (simp add: CC2AGRB_blocks)
  have blocks: "take 4 ra = take 4 r" "drop 4 rb = drop 4 r"
    by (simp_all add: r' ra' rb' length_segment_block)
  have sym: "length r = 8 \<and> r ! 0 = r ! 3 \<and> r ! 1 = r ! 2 \<and> r ! 4 = r ! 7 \<and> r ! 5 = r ! 6"
    unfolding r' by (simp add: segment_block_def)
  show ?thesis
    using blocks sym by simp
qed

theorem CC2AGRB_symmetric_blocks_witness:
  "CC2AGRB 0.2 [1, 0] = Inr [0.5, 0.2 * sin 0.5, 0.2 * sin 0.5, 0.5, 0, 0.1, 0.1, 0]
   \<and> take 4 [0.5, 0.2 * sin 0.5, 0.2 * sin 0.5, 0.5, 1, 0.2 * sin 1 / 2, 0.2 * sin 1 / 2, 1 :: real]
       = take 4 [0.5, 0.2 * sin 0.5, 0.2 * sin 0.5, 0.5, 0, 0.1, 0.1, 0]
   \<and> drop 4 [0, 0.1, 0.1, 0, 0, 0.1, 0.1, 0 :: real]
       = drop 4 [0.5, 0.2 * sin 0.5, 0.2 * sin 0.5, 0.5, 0, 0.1, 0.1, 0]"
proof -
  have r: "CC2AGRB 0.2 [1, 0] = Inr [0.5, 0.2 * sin 0.5, 0.2 * sin 0.5, 0.5, 0, 0.1, 0.1, 0]"
    by (simp add: CC2AGRB_blocks segment_block_def)
  have ra: "CC2AGRB 0.2 [1, 2]
            = Inr [0.5, 0.2 * sin 0.5, 0.2 * sin 0.5, 0.5, 1, 0.2 * sin 1 / 2, 0.2 * sin 1 / 2, 1]"
    by (simp add: CC2AGRB_blocks segment_block_def)
  have rb: "CC2AGRB 0.2 [0, 0] = Inr [0, 0.1, 0.1, 0, 0, 0.1, 0.1, 0]"
    by (simp add: CC2AGRB_blocks segment_block_def)
  show ?thesis
    using r CC2AGRB_symmetric_blocks [OF r ra rb] by simp
qed

section \<open>Properties of the constructor and the output port\<close>

lemma AddSlider_fresh:
  assumes "nm \<notin> fst ` set (buttons m)" and "nm \<notin> slider_name ` set (sliders m)"
  shows "AddSlider m nm lo hi st v =
           Inr (m\<lparr>sliders := sliders m @
             [\<lparr>slider_name = nm, slider_min = lo, slider_max = hi, slider_step = st,
               slider_value = v\<rparr>]\<rparr>)"
  using assms by (simp add: AddSlider_def)

lemma AddSlider_taken:
  "nm \<in> fst ` set (buttons m) \<or> nm \<in> slider_name ` set (sliders m)
     \<Longrightarrow> AddSlider m nm lo hi st v = Inl FrameworkError"
  by (simp add: AddSlider_def)

lemma AddSlider_Inr:
  assumes "AddSlider m nm lo hi st v = Inr m'"
  shows "nm \<notin> fst ` set (buttons m) \<and> nm \<notin> slider_name ` set (sliders m)
         \<and> m' = m\<lparr>sliders := sliders m @
             [\<lparr>slider_name = nm, slider_min = lo, slider_max = hi, slider_step = st,
               slider_value = v\<rparr>]\<rparr>"
  using assms by (auto simp: AddSlider_def split: if_splits)

text \<open>What a system is like when the constructor has returned one.\<close>

lemma init_Inr:
  assumes "init m p L = Inr sys"
  shows "output_ports sys = [(''q1_q2'', 2)]" and "sys_plant sys = p" and "sys_L sys = L"
    and "buttons (sys_meshcat sys) = buttons m"
    and "sliders (sys_meshcat sys) =
           sliders m @
           [\<lparr>slider_name = ''q1'', slider_min = - 2 * pi, slider_max = 2 * pi,
             slider_step = 0.1, slider_value = 0.0\<rparr>,
            \<lparr>slider_name = ''q2'', slider_min = - 2 * pi, slider_max = 2 * pi,
             slider_step = 0.1, slider_value = 0.0\<rparr>]"
proof -
  obtain m1 where m1: "AddSlider m (name Q1) (- 2.0 * pi) (2.0 * pi) 0.1 (default Q1) = Inr m1"
    using assms by (cases "AddSlider m (name Q1) (- 2.0 * pi) (2.0 * pi) 0.1 (default Q1)")
      (simp_all add: init_def Let_def)
  obtain m2 where m2: "AddSlider m1 (name Q2) (- 2.0 * pi) (2.0 * pi) 0.1 (default Q2) = Inr m2"
    using assms m1 by (cases "AddSlider m1 (name Q2) (- 2.0 * pi) (2.0 * pi) 0.1 (default Q2)")
      (simp_all add: init_def Let_def)
  have sys: "sys = \<lparr>output_ports = [(''q1_q2'', 2)], sys_meshcat = m2, sys_plant = p, sys_L = L\<rparr>"
    using assms unfolding init_def Let_def m1 sum.case m2 by simp
  show "output_ports sys = [(''q1_q2'', 2)]" and "sys_plant sys = p" and "sys_L sys = L"
    by (simp_all add: sys)
  show "buttons (sys_meshcat sys) = buttons m"
    using AddSlider_Inr [OF m1] AddSlider_Inr [OF m2] by (simp add: sys)
  show "sliders (sys_meshcat sys) =
           sliders m @
           [\<lparr>slider_name = ''q1'', slider_min = - 2 * pi, slider_max = 2 * pi,
             slider_step = 0.1, slider_value = 0.0\<rparr>,
            \<lparr>slider_name = ''q2'', slider_min = - 2 * pi, slider_max = 2 * pi,
             slider_step = 0.1, slider_value = 0.0\<rparr>]"
    using AddSlider_Inr [OF m1] AddSlider_Inr [OF m2] by (simp add: sys Q1_def Q2_def)
qed

text \<open>The constructor returns a system exactly when both slider names are free.\<close>

lemma init_fresh:
  assumes "''q1'' \<notin> fst ` set (buttons m)" and "''q1'' \<notin> slider_name ` set (sliders m)"
    and "''q2'' \<notin> fst ` set (buttons m)" and "''q2'' \<notin> slider_name ` set (sliders m)"
  shows "\<exists>sys. init m p L = Inr sys"
  using assms by (simp add: init_def Let_def AddSlider_def Q1_def Q2_def)

lemma init_taken:
  assumes "''q1'' \<in> fst ` set (buttons m) \<union> slider_name ` set (sliders m)
           \<or> ''q2'' \<in> fst ` set (buttons m) \<union> slider_name ` set (sliders m)"
  shows "init m p L = Inl FrameworkError"
  using assms by (auto simp: init_def Let_def AddSlider_def Q1_def Q2_def)

text \<open>A second construction over the same visualiser raises: the names are taken.\<close>

lemma init_twice:
  assumes "init m p L = Inr sys"
  shows "init (sys_meshcat sys) p' L' = Inl FrameworkError"
  by (rule init_taken) (simp add: init_Inr(5) [OF assms])

lemma scene_init:
  "init_default \<lparr>sliders = [], buttons = []\<rparr> scene_plant = Inr scene_system"
  by (simp add: init_default_def init_def Let_def AddSlider_def Q1_def Q2_def scene_system_def)

lemma GetButtonClicks_ready:
  "meshcat_ready m \<Longrightarrow> \<exists>c. GetButtonClicks m kButtonName = Inr c"
  by (auto simp: meshcat_ready_def GetButtonClicks_def map_of_eq_None_iff split: option.splits)

lemma GetSliderValue_present:
  "nm \<in> slider_name ` set (sliders m) \<Longrightarrow> \<exists>v. GetSliderValue m nm = Inr v"
  by (auto simp: GetSliderValue_def find_None_iff split: option.splits)

lemma DoCalcOutput_two:
  assumes "GetSliderValue m (name Q1) = Inr v1" and "GetSliderValue m (name Q2) = Inr v2"
    and "length out = 2"
  shows "DoCalcOutput m out = Inr [v1, v2]"
proof -
  obtain a b where out: "out = [a, b]"
    using assms(3) by (metis (no_types) length_0_conv length_Suc_conv numeral_2_eq_2)
  show ?thesis
    by (simp add: DoCalcOutput_def assms(1,2) SetAtIndex_def out)
qed

lemma Eval_ported:
  assumes "output_ports sys = [(''q1_q2'', 2)]" and "meshcat_ready mc"
  shows "\<exists>v1 v2. Eval sys mc = Inr [v1, v2]"
proof -
  obtain v1 where v1: "GetSliderValue mc (name Q1) = Inr v1"
    using assms(2) GetSliderValue_present by (auto simp: meshcat_ready_def)
  obtain v2 where v2: "GetSliderValue mc (name Q2) = Inr v2"
    using assms(2) GetSliderValue_present by (auto simp: meshcat_ready_def)
  have "Eval sys mc = DoCalcOutput mc (replicate 2 0)"
    by (simp add: Eval_def assms(1))
  also have "\<dots> = Inr [v1, v2]"
    by (rule DoCalcOutput_two [OF v1 v2]) simp
  finally show ?thesis by blast
qed

lemma scene_clicks: "GetButtonClicks (poll_meshcat (scene_poll v1 v2 c t)) kButtonName = Inr c"
  by (simp add: scene_poll_def scene_meshcat_def GetButtonClicks_def)

lemma scene_ready: "meshcat_ready (poll_meshcat (scene_poll v1 v2 c t))"
  by (simp add: scene_poll_def scene_meshcat_def meshcat_ready_def Q1_def Q2_def)

lemma scene_Eval: "Eval scene_system (poll_meshcat (scene_poll v1 v2 c t)) = Inr [v1, v2]"
  by (simp add: scene_system_def Eval_def DoCalcOutput_def
      GetSliderValue_def scene_poll_def scene_meshcat_def Q1_def Q2_def SetAtIndex_def
      numeral_2_eq_2)

text \<open>
  Claim C5. The constructor adds exactly two sliders to the visualiser, named \<open>q1\<close> and
  \<open>q2\<close>, each with minimum \<open>-2*pi\<close>, maximum \<open>2*pi\<close>, step \<open>0.1\<close> and initial value \<open>0.0\<close>;
  it adds no button. The visualiser it is given has no slider and no button of either
  name: on one that has, the constructor raises.
\<close>

theorem init_registers_two_sliders:
  assumes "''q1'' \<notin> fst ` set (buttons m)" and "''q1'' \<notin> slider_name ` set (sliders m)"
    and "''q2'' \<notin> fst ` set (buttons m)" and "''q2'' \<notin> slider_name ` set (sliders m)"
  shows "\<exists>sys. init m p L = Inr sys
           \<and> sliders (sys_meshcat sys) =
               sliders m @
               [\<lparr>slider_name = ''q1'', slider_min = - 2 * pi, slider_max = 2 * pi,
                 slider_step = 0.1, slider_value = 0.0\<rparr>,
                \<lparr>slider_name = ''q2'', slider_min = - 2 * pi, slider_max = 2 * pi,
                 slider_step = 0.1, slider_value = 0.0\<rparr>]
           \<and> buttons (sys_meshcat sys) = buttons m"
proof -
  obtain sys where sys: "init m p L = Inr sys"
    using init_fresh [OF assms] by blast
  show ?thesis
    using sys init_Inr(4) [OF sys] init_Inr(5) [OF sys] by blast
qed

theorem init_registers_two_sliders_witness:
  "\<exists>sys. init \<lparr>sliders = [], buttons = [(''Reset'', 3)]\<rparr> \<lparr>default_positions = []\<rparr> 0.2 = Inr sys
     \<and> map slider_name (sliders (sys_meshcat sys)) = [''q1'', ''q2'']
     \<and> length (sliders (sys_meshcat sys)) = 2
     \<and> buttons (sys_meshcat sys) = [(''Reset'', 3)]"
proof -
  have b1: "''q1'' \<notin> fst ` set (buttons \<lparr>sliders = [], buttons = [(''Reset'', 3)]\<rparr>)"
    and s1: "''q1'' \<notin> slider_name ` set (sliders \<lparr>sliders = [], buttons = [(''Reset'', 3)]\<rparr>)"
    and b2: "''q2'' \<notin> fst ` set (buttons \<lparr>sliders = [], buttons = [(''Reset'', 3)]\<rparr>)"
    and s2: "''q2'' \<notin> slider_name ` set (sliders \<lparr>sliders = [], buttons = [(''Reset'', 3)]\<rparr>)"
    by simp_all
  obtain sys where "init \<lparr>sliders = [], buttons = [(''Reset'', 3)]\<rparr> \<lparr>default_positions = []\<rparr> 0.2 = Inr sys"
    and "sliders (sys_meshcat sys) =
               sliders \<lparr>sliders = [], buttons = [(''Reset'', 3)]\<rparr> @
               [\<lparr>slider_name = ''q1'', slider_min = - 2 * pi, slider_max = 2 * pi,
                 slider_step = 0.1, slider_value = 0.0\<rparr>,
                \<lparr>slider_name = ''q2'', slider_min = - 2 * pi, slider_max = 2 * pi,
                 slider_step = 0.1, slider_value = 0.0\<rparr>]"
    and "buttons (sys_meshcat sys) = buttons \<lparr>sliders = [], buttons = [(''Reset'', 3)]\<rparr>"
    using init_registers_two_sliders [OF b1 s1 b2 s2, of "\<lparr>default_positions = []\<rparr>" "0.2"]
    by blast
  then show ?thesis by simp
qed

text \<open>
  Claim C6. The system declares one vector output port, named \<open>q1_q2\<close>, of size 2, and
  \<open>DoCalcOutput\<close> writes the current value of slider \<open>q1\<close> to index 0 of the output and
  the current value of slider \<open>q2\<close> to index 1.
\<close>

theorem output_port_q1_q2:
  assumes "init m0 p L = Inr sys"
    and "GetSliderValue m ''q1'' = Inr v1" and "GetSliderValue m ''q2'' = Inr v2"
    and "length out = 2"
  shows "output_ports sys = [(''q1_q2'', 2)]
         \<and> (\<exists>out'. DoCalcOutput m out = Inr out' \<and> length out' = 2
               \<and> out' ! 0 = v1 \<and> out' ! 1 = v2)"
proof -
  have "DoCalcOutput m out = Inr [v1, v2]"
    using assms(2-4) by (intro DoCalcOutput_two) (simp_all add: Q1_def Q2_def)
  then show ?thesis by (simp add: init_Inr(1) [OF assms(1)])
qed

theorem output_port_q1_q2_witness:
  "init \<lparr>sliders = [], buttons = []\<rparr> scene_plant 0.2 = Inr scene_system
   \<and> output_ports scene_system = [(''q1_q2'', 2)]
   \<and> GetSliderValue (scene_meshcat 0.3 (- 1.2) 0) ''q1'' = Inr 0.3
   \<and> GetSliderValue (scene_meshcat 0.3 (- 1.2) 0) ''q2'' = Inr (- 1.2)
   \<and> DoCalcOutput (scene_meshcat 0.3 (- 1.2) 0) [0, 0] = Inr [0.3, - 1.2]"
proof -
  have i: "init \<lparr>sliders = [], buttons = []\<rparr> scene_plant 0.2 = Inr scene_system"
    using scene_init by (simp add: init_default_def)
  have v1: "GetSliderValue (scene_meshcat 0.3 (- 1.2) 0) ''q1'' = Inr 0.3"
    by (simp add: GetSliderValue_def scene_meshcat_def)
  have v2: "GetSliderValue (scene_meshcat 0.3 (- 1.2) 0) ''q2'' = Inr (- 1.2)"
    by (simp add: GetSliderValue_def scene_meshcat_def)
  have len: "length [0, 0 :: real] = 2" by simp
  obtain out' where "DoCalcOutput (scene_meshcat 0.3 (- 1.2) 0) [0, 0] = Inr out'"
    and "length out' = 2" and "out' ! 0 = 0.3" and "out' ! 1 = - 1.2"
    and "output_ports scene_system = [(''q1_q2'', 2)]"
    using output_port_q1_q2 [OF i v1 v2 len] by blast
  moreover from this have "out' = [0.3, - 1.2]"
    by (cases out'; cases "tl out'") auto
  ultimately show ?thesis using i v1 v2 by simp
qed

section \<open>Properties of the polling loop\<close>

lemma np_sub_same_length:
  "length xs = length ys \<Longrightarrow> np_sub xs ys = Inr (map2 (-) xs ys)"
  by (simp add: np_sub_def)

lemma list_all_map2_minus:
  assumes "length xs = n" and "length ys = n"
  shows "list_all (\<lambda>x. \<bar>x\<bar> < (c::real)) (map2 (-) xs ys) = (\<forall>i<n. \<bar>xs ! i - ys ! i\<bar> < c)"
  using assms by (simp add: list_all_length)

lemma Run_iteration_changed:
  assumes clicks: "GetButtonClicks (poll_meshcat p) kButtonName = Inr clicks" "clicks < 1"
    and time: "poll_time p - t0 < timeout"
    and ev: "Eval sys (poll_meshcat p) = Inr q"
    and new: "CC2AGRB (sys_L sys) q = Inr new_positions"
    and len: "length ctx = 8"
    and diff: "\<exists>i<8. \<bar>new_positions ! i - ctx ! i\<bar> \<ge> 0.001"
  shows "Run_iteration sys timeout t0 p ctx = Inr (Continue, new_positions, [Publish new_positions])"
proof -
  have ln: "length new_positions = 8" using new by (rule length_CC2AGRB)
  have sub: "np_sub new_positions ctx = Inr (map2 (-) new_positions ctx)"
    using ln len by (simp add: np_sub_same_length)
  have far: "\<not> list_all (\<lambda>x. \<bar>x\<bar> < 0.001) (map2 (-) new_positions ctx)"
    unfolding list_all_map2_minus [OF ln len] using diff by (auto simp: not_less)
  have set: "SetPositions ctx new_positions = Inr new_positions"
    using ln len by (simp add: SetPositions_def)
  show ?thesis
    using clicks(2) time far
    by (simp add: Run_iteration_def clicks(1) Let_def ev new sub set)
qed

lemma Run_iteration_unchanged:
  assumes clicks: "GetButtonClicks (poll_meshcat p) kButtonName = Inr clicks" "clicks < 1"
    and time: "poll_time p - t0 < timeout"
    and ev: "Eval sys (poll_meshcat p) = Inr q"
    and new: "CC2AGRB (sys_L sys) q = Inr new_positions"
    and len: "length ctx = 8"
    and diff: "\<forall>i<8. \<bar>new_positions ! i - ctx ! i\<bar> < 0.001"
  shows "Run_iteration sys timeout t0 p ctx = Inr (Continue, ctx, [Sleep 0.01])"
proof -
  have ln: "length new_positions = 8" using new by (rule length_CC2AGRB)
  have sub: "np_sub new_positions ctx = Inr (map2 (-) new_positions ctx)"
    using ln len by (simp add: np_sub_same_length)
  have near: "list_all (\<lambda>x. \<bar>x\<bar> < 0.001) (map2 (-) new_positions ctx)"
    unfolding list_all_map2_minus [OF ln len] using diff by blast
  show ?thesis
    using clicks(2) time near
    by (simp add: Run_iteration_def clicks(1) Let_def ev new sub)
qed

lemma Run_iteration_break:
  assumes "meshcat_ready (poll_meshcat p)" and "stop_or_timeout timeout t0 p"
  shows "Run_iteration sys timeout t0 p ctx = Inr (Break, ctx, [])"
proof -
  obtain c where c: "GetButtonClicks (poll_meshcat p) kButtonName = Inr c"
    using assms(1) GetButtonClicks_ready by blast
  show ?thesis
    using assms(2) by (auto simp: Run_iteration_def stop_or_timeout_def c Let_def)
qed

lemma Run_iteration_continue:
  assumes port: "output_ports sys = [(''q1_q2'', 2)]"
    and ready: "meshcat_ready (poll_meshcat p)"
    and go: "\<not> stop_or_timeout timeout t0 p"
    and len: "length ctx = 8"
  shows "\<exists>ctx' evs'. Run_iteration sys timeout t0 p ctx = Inr (Continue, ctx', evs')
           \<and> length ctx' = 8"
proof -
  obtain c where c: "GetButtonClicks (poll_meshcat p) kButtonName = Inr c"
    using ready GetButtonClicks_ready by blast
  have c1: "c < 1" and t: "poll_time p - t0 < timeout"
    using go by (auto simp: stop_or_timeout_def c)
  obtain v1 v2 where ev: "Eval sys (poll_meshcat p) = Inr [v1, v2]"
    using Eval_ported [OF port ready] by blast
  obtain new where new: "CC2AGRB (sys_L sys) [v1, v2] = Inr new"
    by (simp add: CC2AGRB_blocks)
  have ln: "length new = 8" using new by (rule length_CC2AGRB)
  show ?thesis
  proof (cases "\<forall>i<8. \<bar>new ! i - ctx ! i\<bar> < 0.001")
    case True
    then show ?thesis
      using Run_iteration_unchanged [OF c c1 t ev new len] len by simp
  next
    case False
    then have "\<exists>i<8. \<bar>new ! i - ctx ! i\<bar> \<ge> 0.001" by (auto simp: not_less)
    then show ?thesis
      using Run_iteration_changed [OF c c1 t ev new len] ln by simp
  qed
qed

lemma Run_loop_polling:
  assumes "output_ports sys = [(''q1_q2'', 2)]"
    and "\<forall>x\<in>set ps. meshcat_ready (poll_meshcat x) \<and> \<not> stop_or_timeout timeout t0 x"
    and "length ctx = 8"
  shows "\<exists>ctx' evs'. Run_loop sys timeout t0 ps ctx evs = Inr (Continue, ctx', evs')
           \<and> length ctx' = 8
           \<and> (\<forall>p rest. meshcat_ready (poll_meshcat p) \<longrightarrow> stop_or_timeout timeout t0 p \<longrightarrow>
                 Run_loop sys timeout t0 (ps @ p # rest) ctx evs = Inr (Break, ctx', evs'))"
  using assms(2,3)
proof (induction ps arbitrary: ctx evs)
  case Nil
  then show ?case by (simp add: Run_iteration_break)
next
  case (Cons x ps)
  obtain ctx1 evs1 where it: "Run_iteration sys timeout t0 x ctx = Inr (Continue, ctx1, evs1)"
    and l1: "length ctx1 = 8"
    using Run_iteration_continue [OF assms(1), of x timeout t0 ctx] Cons.prems by auto
  have "\<forall>y\<in>set ps. meshcat_ready (poll_meshcat y) \<and> \<not> stop_or_timeout timeout t0 y"
    using Cons.prems by simp
  from Cons.IH [OF this l1, of "evs @ evs1"] show ?case
    by (simp add: it)
qed

text \<open>
  Adding the stop button to the visualiser of a system the constructor returned: it
  raises only when the visualiser the constructor was given had a slider of that name.
\<close>

lemma AddButton_after_init:
  assumes "init m pl L = Inr sys" and "kButtonName \<notin> slider_name ` set (sliders m)"
  shows "\<exists>m'. AddButton (sys_meshcat sys) kButtonName = Inr m'"
proof -
  have "kButtonName \<notin> slider_name ` set (sliders (sys_meshcat sys))"
    using assms(2) by (simp add: init_Inr(5) [OF assms(1)] kButtonName_def)
  then show ?thesis by (simp add: AddButton_def)
qed

lemma scene_L: "sys_L scene_system = 0.2"
  by (simp add: scene_system_def)

lemma scene_straight: "CC2AGRB (sys_L scene_system) [0, 0] = Inr [0, 0.1, 0.1, 0, 0, 0.1, 0.1, 0]"
  by (simp add: scene_L CC2AGRB_blocks segment_block_def)

lemma scene_stop_or_timeout:
  "stop_or_timeout timeout t0 (scene_poll v1 v2 c t) = (1 \<le> c \<or> timeout \<le> t - t0)"
  by (simp add: stop_or_timeout_def scene_clicks) (simp add: scene_poll_def)

text \<open>
  Claim C2. In an iteration of the loop that reaches the comparison and finds the new
  positions, \<open>CC2AGRB\<close> of the output port's value, at least \<open>0.001\<close> away from the plant's
  current positions in some coordinate, the plant context's positions become exactly
  the new positions, and the diagram is then published with them. The plant has the
  eight positions \<open>CC2AGRB\<close> produces.
\<close>

theorem Run_iteration_sets_and_publishes:
  assumes "GetButtonClicks (poll_meshcat p) kButtonName = Inr clicks" and "clicks < 1"
    and "poll_time p - t0 < timeout"
    and "Eval sys (poll_meshcat p) = Inr q"
    and "CC2AGRB (sys_L sys) q = Inr new_positions"
    and "length ctx = 8"
    and "\<exists>i<8. \<bar>new_positions ! i - ctx ! i\<bar> \<ge> 0.001"
  shows "Run_iteration sys timeout t0 p ctx
           = Inr (Continue, new_positions, [Publish new_positions])"
  using assms by (rule Run_iteration_changed)

theorem Run_iteration_sets_and_publishes_witness:
  "(\<exists>i<8. \<bar>[0, 0.1, 0.1, 0, 0, 0.1, 0.1, 0] ! i - [0, 0, 0, 0, 0, 0, 0, 0] ! i\<bar> \<ge> (0.001 :: real))
   \<and> Run_iteration scene_system 100000 0 (scene_poll 0 0 0 1) [0, 0, 0, 0, 0, 0, 0, 0]
       = Inr (Continue, [0, 0.1, 0.1, 0, 0, 0.1, 0.1, 0], [Publish [0, 0.1, 0.1, 0, 0, 0.1, 0.1, 0]])"
proof -
  have c: "(0 :: int) < 1" by simp
  have t: "poll_time (scene_poll 0 0 0 1) - 0 < 100000"
    by (simp add: scene_poll_def)
  have len: "length [0, 0, 0, 0, 0, 0, 0, 0 :: real] = 8" by simp
  have d: "\<exists>i<8. \<bar>[0, 0.1, 0.1, 0, 0, 0.1, 0.1, 0] ! i - [0, 0, 0, 0, 0, 0, 0, 0] ! i\<bar> \<ge> (0.001 :: real)"
    by (rule exI [of _ 1]) simp
  show ?thesis
    using d Run_iteration_sets_and_publishes [OF scene_clicks c t scene_Eval scene_straight len d]
    by blast
qed

text \<open>
  Claim C8. In an iteration of the loop in which every coordinate of the new positions
  is less than \<open>0.001\<close> away from the plant's current positions, the plant context's
  positions stay as they are and the diagram is not published.
\<close>

theorem Run_iteration_leaves_unchanged:
  assumes "GetButtonClicks (poll_meshcat p) kButtonName = Inr clicks" and "clicks < 1"
    and "poll_time p - t0 < timeout"
    and "Eval sys (poll_meshcat p) = Inr q"
    and "CC2AGRB (sys_L sys) q = Inr new_positions"
    and "length ctx = 8"
    and "\<forall>i<8. \<bar>new_positions ! i - ctx ! i\<bar> < 0.001"
  shows "\<exists>evs. Run_iteration sys timeout t0 p ctx = Inr (Continue, ctx, evs)
               \<and> (\<forall>ps. Publish ps \<notin> set evs)"
  using Run_iteration_unchanged [OF assms] by simp

theorem Run_iteration_leaves_unchanged_witness:
  "\<exists>evs. Run_iteration scene_system 100000 0 (scene_poll 0 0 0 1)
            [0, 0.1, 0.1005, 0, 0, 0.1, 0.1, 0.0002]
          = Inr (Continue, [0, 0.1, 0.1005, 0, 0, 0.1, 0.1, 0.0002], evs)
        \<and> (\<forall>ps. Publish ps \<notin> set evs)"
proof -
  have c: "(0 :: int) < 1" by simp
  have t: "poll_time (scene_poll 0 0 0 1) - 0 < 100000"
    by (simp add: scene_poll_def)
  have len: "length [0, 0.1, 0.1005, 0, 0, 0.1, 0.1, 0.0002 :: real] = 8" by simp
  have d: "\<forall>i<8. \<bar>[0, 0.1, 0.1, 0, 0, 0.1, 0.1, 0] ! i
                    - [0, 0.1, 0.1005, 0, 0, 0.1, 0.1, 0.0002] ! i\<bar> < (0.001 :: real)"
  proof (intro allI impI)
    fix i :: nat
    assume "i < 8"
    then have "i \<in> {0, 1, 2, 3, 4, 5, 6, 7}" by auto
    then show "\<bar>[0, 0.1, 0.1, 0, 0, 0.1, 0.1, 0] ! i
                - [0, 0.1, 0.1005, 0, 0, 0.1, 0.1, 0.0002] ! i\<bar> < (0.001 :: real)"
      by auto
  qed
  show ?thesis
    using Run_iteration_leaves_unchanged [OF scene_clicks c t scene_Eval scene_straight len d]
    by blast
qed




text \<open>
  Claim C3. For every timeout, the loop of \<open>Run\<close> keeps polling as long as the stop button
  has not been clicked and the time elapsed since the start is below the timeout, and
  it leaves at the first poll that finds the button clicked at least once or the elapsed
  time at least the timeout, with the plant context and the events of the iterations
  before. The clock and the visualiser are read once per iteration; the plant has eight
  positions, and the system is one the constructor returned, from a visualiser with no
  slider named like the stop button.
\<close>

theorem Run_exits_on_stop_or_timeout:
  assumes "init m pl L = Inr sys"
    and "kButtonName \<notin> slider_name ` set (sliders m)"
    and "length (default_positions pl) = 8"
    and "\<forall>x\<in>set ps. meshcat_ready (poll_meshcat x) \<and> \<not> stop_or_timeout timeout t0 x"
  shows "\<exists>m' ctx evs. Run sys timeout t0 ps = Inr (m', Continue, ctx, evs)
           \<and> (\<forall>p rest. meshcat_ready (poll_meshcat p) \<longrightarrow> stop_or_timeout timeout t0 p \<longrightarrow>
                 Run sys timeout t0 (ps @ p # rest) = Inr (m', Break, ctx, evs))"
proof -
  obtain m' where m': "AddButton (sys_meshcat sys) kButtonName = Inr m'"
    using AddButton_after_init [OF assms(1,2)] by blast
  have pl: "default_positions (sys_plant sys) = default_positions pl"
    by (simp add: init_Inr(2) [OF assms(1)])
  have len: "length (default_positions (sys_plant sys)) = 8"
    using assms(3) pl by simp
  obtain ctx evs where
    go: "Run_loop sys timeout t0 ps (default_positions (sys_plant sys))
           [Publish (default_positions (sys_plant sys))] = Inr (Continue, ctx, evs)"
    and stop: "\<forall>p rest. meshcat_ready (poll_meshcat p) \<longrightarrow> stop_or_timeout timeout t0 p \<longrightarrow>
           Run_loop sys timeout t0 (ps @ p # rest) (default_positions (sys_plant sys))
             [Publish (default_positions (sys_plant sys))] = Inr (Break, ctx, evs)"
    using Run_loop_polling [OF init_Inr(1) [OF assms(1)] assms(4) len] by blast
  have "Run sys timeout t0 ps = Inr (m', Continue, ctx, evs)"
    by (simp add: Run_def Let_def m' go)
  moreover have "\<forall>p rest. meshcat_ready (poll_meshcat p) \<longrightarrow> stop_or_timeout timeout t0 p \<longrightarrow>
      Run sys timeout t0 (ps @ p # rest) = Inr (m', Break, ctx, evs)"
    using stop by (simp add: Run_def Let_def m')
  ultimately show ?thesis by blast
qed

theorem Run_exits_on_stop_or_timeout_witness:
  "\<exists>m' ctx evs.
     Run scene_system 100000 0 [scene_poll 0 0 0 1, scene_poll 0.5 0 0 2]
       = Inr (m', Continue, ctx, evs)
     \<and> Run scene_system 100000 0
          ([scene_poll 0 0 0 1, scene_poll 0.5 0 0 2] @ scene_poll 0.5 0 1 3 # [scene_poll 0 0 1 4])
       = Inr (m', Break, ctx, evs)
     \<and> Run scene_system 100000 0
          ([scene_poll 0 0 0 1, scene_poll 0.5 0 0 2] @ scene_poll 0.5 0 0 100000 # [])
       = Inr (m', Break, ctx, evs)"
proof -
  have i: "init \<lparr>sliders = [], buttons = []\<rparr> scene_plant 0.2 = Inr scene_system"
    using scene_init by (simp add: init_default_def)
  have free: "kButtonName \<notin> slider_name ` set (sliders \<lparr>sliders = [], buttons = []\<rparr>)"
    by simp
  have len: "length (default_positions scene_plant) = 8"
    by (simp add: scene_plant_def)
  have polls: "\<forall>x\<in>set [scene_poll 0 0 0 1, scene_poll 0.5 0 0 2].
                 meshcat_ready (poll_meshcat x) \<and> \<not> stop_or_timeout 100000 0 x"
    by (simp add: scene_ready scene_stop_or_timeout)
  have clicked: "stop_or_timeout 100000 0 (scene_poll 0.5 0 1 3)"
    by (simp add: scene_stop_or_timeout)
  have late: "stop_or_timeout 100000 0 (scene_poll 0.5 0 0 100000)"
    by (simp add: scene_stop_or_timeout)
  show ?thesis
    using Run_exits_on_stop_or_timeout [OF i free len polls] clicked late scene_ready
    by blast
qed

end
